theory Spec2Isabelle
  imports Complex_Main "HOL-Library.Sublist"
begin

section \<open>Authentication and session core of the real-estate chat backend\<close>

text \<open>
  The theory embeds \<^verbatim>\<open>backend/auth_service.py\<close> (class \<^verbatim>\<open>AuthService\<close>) and the
  rate limiter and CSRF helper of \<^verbatim>\<open>backend/auth_middleware.py\<close>.

  Conventions of the embedding.
  \<^item> A Python \<^verbatim>\<open>str\<close> whose characters are inspected (a password) is a list of Unicode
    code points; strings that are only compared or concatenated (tokens, e-mail
    addresses, messages) are HOL strings.
  \<^item> What the service calls in libraries (the \<^verbatim>\<open>str\<close> character tests, bcrypt, PyJWT,
    email\_validator) and its configuration are the fields of the record \<open>env\<close>.
  \<^item> \<^verbatim>\<open>datetime.utcnow()\<close> is the argument \<open>now\<close> (microseconds since the epoch); one
    operation reads one instant. Output of \<^verbatim>\<open>secrets\<close> and \<^verbatim>\<open>bcrypt.gensalt\<close> is an argument.
  \<^item> A raised exception is \<open>Inl\<close>, paired with the database as the exception leaves it.
\<close>

subsection \<open>Strings and the library environment\<close>

type_synonym codepoint = nat
type_synonym pystr = "codepoint list"
type_synonym datetime = int

definition str_lit :: "string \<Rightarrow> pystr" where
  "str_lit cs = map of_char cs"

datatype json = JNull | JBool bool | JInt int | JStr string | JObj "(string \<times> json) list"

record payload =
  p_user_id :: int
  p_type :: string
  p_exp :: datetime
  p_iat :: datetime
  p_jti :: "string option"

datatype jwt_result = Decoded payload | ExpiredSignatureError | InvalidTokenError

record env =
  isupper :: "codepoint \<Rightarrow> bool"
  islower :: "codepoint \<Rightarrow> bool"
  isdigit :: "codepoint \<Rightarrow> bool"
  hmac_sha256_hex :: "string \<Rightarrow> string \<Rightarrow> string"
  bcrypt_hashpw :: "pystr \<Rightarrow> string \<Rightarrow> string"
  bcrypt_checkpw :: "pystr \<Rightarrow> string \<Rightarrow> bool"
  jwt_encode :: "payload \<Rightarrow> string"
  jwt_decode :: "datetime \<Rightarrow> string \<Rightarrow> jwt_result"
  validate_email :: "string \<Rightarrow> bool"
  access_token_expire_minutes :: int
  refresh_token_expire_days :: int
  csrf_secret :: string

subsection \<open>Credential store: password strength\<close>

record requirements =
  min_length :: nat
  has_uppercase :: bool
  has_lowercase :: bool
  has_digit :: bool
  has_special :: bool

record validation =
  is_valid :: bool
  errors :: "string list"
  requirements :: requirements

definition special_chars :: pystr where
  "special_chars = str_lit ''!@#$%^&*()_+-=[]{}|;:,.<>?''"

definition msg_length :: string where
  "msg_length = ''Password must be at least 8 characters long''"

definition msg_uppercase :: string where
  "msg_uppercase = ''Password must contain at least one uppercase letter''"

definition msg_lowercase :: string where
  "msg_lowercase = ''Password must contain at least one lowercase letter''"

definition msg_digit :: string where
  "msg_digit = ''Password must contain at least one number''"

definition msg_special :: string where
  "msg_special = ''Password must contain at least one special character''"

text \<open>
  \<^verbatim>\<open>validate_password_strength\<close>: the list \<open>errors\<close> grows by one message per failed test,
  in the order of the source; the four character tests each set their flag or append.
\<close>

definition validate_password_strength :: "env \<Rightarrow> pystr \<Rightarrow> validation" where
  "validate_password_strength E password =
    (let up = (\<exists>c \<in> set password. isupper E c);
         lo = (\<exists>c \<in> set password. islower E c);
         dg = (\<exists>c \<in> set password. isdigit E c);
         sp = (\<exists>c \<in> set password. c \<in> set special_chars);
         errs = (if length password < 8 then [msg_length] else [])
              @ (if up then [] else [msg_uppercase])
              @ (if lo then [] else [msg_lowercase])
              @ (if dg then [] else [msg_digit])
              @ (if sp then [] else [msg_special])
     in \<lparr> is_valid = (length errs = 0),
          errors = errs,
          requirements = \<lparr> min_length = 8, has_uppercase = up, has_lowercase = lo,
                           has_digit = dg, has_special = sp \<rparr> \<rparr>)"

subsection \<open>Errors\<close>

text \<open>
  \<^verbatim>\<open>HTTPException(status_code, detail)\<close>: the detail is a message, or a dictionary with a
  message and the list of violated password rules. The other exceptions are the ones the
  database layer or Python raise inside the service.
\<close>

datatype detail = Msg string | Rules string "string list"

datatype error =
    HTTPException nat detail
  | IntegrityError
  | OperationalError
  | AttributeError

subsection \<open>Tables (\<^verbatim>\<open>backend/models.py\<close>)\<close>

record user_row =
  u_id :: int
  u_uuid :: string
  u_email :: string
  u_username :: string
  u_password_hash :: string
  u_first_name :: string
  u_last_name :: string
  u_profile :: json
  u_is_active :: bool
  u_last_login :: "datetime option"
  u_roles :: "string list"

record session_row =
  s_id :: int
  s_user_id :: int
  s_session_token :: string
  s_refresh_token :: string
  s_device_info :: json
  s_ip_address :: "string option"
  s_is_active :: bool
  s_expires_at :: datetime
  s_created_at :: datetime
  s_last_accessed :: datetime

record reset_row =
  pr_id :: int
  pr_user_id :: int
  pr_reset_token :: string
  pr_expires_at :: datetime
  pr_used :: bool
  pr_created_at :: datetime

record role_row =
  r_name :: string
  r_permissions :: "(string \<times> string) list"

record audit_row =
  a_user_id :: "int option"
  a_action :: string
  a_details :: json
  a_ip_address :: "string option"
  a_user_agent :: "string option"
  a_timestamp :: datetime

text \<open>
  The SQLAlchemy session: the tables as the open transaction sees them (\<open>cur\<close>), the
  last committed tables (\<open>durable\<close>), and \<open>commit_faults\<close>, which says for each coming
  \<^verbatim>\<open>commit()\<close> whether the database makes it fail (an empty list: none fails).
\<close>

record tables =
  users :: "user_row list"
  roles :: "role_row list"
  user_sessions :: "session_row list"
  password_resets :: "reset_row list"
  audit_logs :: "audit_row list"

record db =
  cur :: tables
  durable :: tables
  commit_faults :: "bool list"

type_synonym 'a result = "(error + 'a) \<times> db"

definition put_users :: "db \<Rightarrow> user_row list \<Rightarrow> db" where
  "put_users s rows = s \<lparr> cur := (cur s) \<lparr> users := rows \<rparr> \<rparr>"

definition put_user_sessions :: "db \<Rightarrow> session_row list \<Rightarrow> db" where
  "put_user_sessions s rows = s \<lparr> cur := (cur s) \<lparr> user_sessions := rows \<rparr> \<rparr>"

definition put_password_resets :: "db \<Rightarrow> reset_row list \<Rightarrow> db" where
  "put_password_resets s rows = s \<lparr> cur := (cur s) \<lparr> password_resets := rows \<rparr> \<rparr>"

definition put_audit_logs :: "db \<Rightarrow> audit_row list \<Rightarrow> db" where
  "put_audit_logs s rows = s \<lparr> cur := (cur s) \<lparr> audit_logs := rows \<rparr> \<rparr>"

definition rollback :: "db \<Rightarrow> db" where
  "rollback s = s \<lparr> cur := durable s \<rparr>"

text \<open>\<^verbatim>\<open>self.db.commit()\<close>: makes the open transaction durable, or fails and loses it.\<close>

definition commit :: "db \<Rightarrow> unit result" where
  "commit s =
    (case commit_faults s of
       [] \<Rightarrow> (Inr (), s \<lparr> durable := cur s \<rparr>)
     | f # fs \<Rightarrow>
         if f then (Inl OperationalError, (rollback s) \<lparr> commit_faults := fs \<rparr>)
         else (Inr (), s \<lparr> durable := cur s, commit_faults := fs \<rparr>))"

text \<open>Sequencing: an exception of the first step ends the operation.\<close>

definition and_then :: "'a result \<Rightarrow> ('a \<Rightarrow> db \<Rightarrow> 'b result) \<Rightarrow> 'b result" where
  "and_then r f = (case r of (Inl e, s) \<Rightarrow> (Inl e, s) | (Inr x, s) \<Rightarrow> f x s)"

text \<open>\<^verbatim>\<open>query.first()\<close> is \<^const>\<open>find\<close>; assigning to the object it returned updates that row.\<close>

fun update_first :: "('a \<Rightarrow> bool) \<Rightarrow> ('a \<Rightarrow> 'a) \<Rightarrow> 'a list \<Rightarrow> 'a list" where
  "update_first P f [] = []"
| "update_first P f (x # xs) = (if P x then f x # xs else x # update_first P f xs)"

text \<open>\<^verbatim>\<open>query.update({"is_active": False})\<close> on the rows that satisfy the filter.\<close>

definition update_where :: "('a \<Rightarrow> bool) \<Rightarrow> ('a \<Rightarrow> 'a) \<Rightarrow> 'a list \<Rightarrow> 'a list" where
  "update_where P f xs = map (\<lambda>x. if P x then f x else x) xs"

text \<open>The next value of an autoincrement primary key.\<close>

definition next_id :: "int list \<Rightarrow> int" where
  "next_id ids = fold max ids 0 + 1"

subsection \<open>Audit log\<close>

definition log_audit_event ::
  "datetime \<Rightarrow> string \<Rightarrow> int option \<Rightarrow> json \<Rightarrow> string option \<Rightarrow> string option \<Rightarrow> db \<Rightarrow> unit result"
where
  "log_audit_event now action user_id details ip_address user_agent s =
    (let audit_log = \<lparr> a_user_id = user_id, a_action = action, a_details = details,
                        a_ip_address = ip_address, a_user_agent = user_agent,
                        a_timestamp = now \<rparr>
     in commit (put_audit_logs s (audit_logs (cur s) @ [audit_log])))"

subsection \<open>Password reset\<close>

definition hash_password :: "env \<Rightarrow> string \<Rightarrow> pystr \<Rightarrow> string" where
  "hash_password E salt password = bcrypt_hashpw E password salt"

definition weak_password :: "validation \<Rightarrow> error" where
  "weak_password v = HTTPException 400 (Rules ''Password does not meet requirements'' (errors v))"

definition reset_live :: "datetime \<Rightarrow> string \<Rightarrow> reset_row \<Rightarrow> bool" where
  "reset_live now reset_token r \<longleftrightarrow>
     pr_reset_token r = reset_token \<and> pr_used r = False \<and> pr_expires_at r > now"

definition reset_password :: "env \<Rightarrow> datetime \<Rightarrow> string \<Rightarrow> string \<Rightarrow> pystr \<Rightarrow> db \<Rightarrow> bool result" where
  "reset_password E now salt reset_token new_password s =
    (let password_validation = validate_password_strength E new_password in
     if \<not> is_valid password_validation then (Inl (weak_password password_validation), s)
     else
       case find (reset_live now reset_token) (password_resets (cur s)) of
         None \<Rightarrow> (Inl (HTTPException 400 (Msg ''Invalid or expired reset token'')), s)
       | Some password_reset \<Rightarrow>
          (case find (\<lambda>u. u_id u = pr_user_id password_reset) (users (cur s)) of
             None \<Rightarrow> (Inl AttributeError, s)
           | Some user \<Rightarrow>
              (let s1 = put_users s (update_first (\<lambda>u. u_id u = pr_user_id password_reset)
                              (\<lambda>u. u \<lparr> u_password_hash := hash_password E salt new_password \<rparr>)
                              (users (cur s)));
                   s2 = put_password_resets s1 (update_first (reset_live now reset_token)
                              (\<lambda>r. r \<lparr> pr_used := True \<rparr>) (password_resets (cur s1)));
                   s3 = put_user_sessions s2 (update_where
                              (\<lambda>r. s_user_id r = u_id user \<and> s_is_active r = True)
                              (\<lambda>r. r \<lparr> s_is_active := False \<rparr>) (user_sessions (cur s2)))
               in and_then (commit s3) (\<lambda>_ s4.
                  and_then (log_audit_event now ''password_reset_completed'' (Some (u_id user))
                              (JObj []) None None s4) (\<lambda>_ s5.
                  (Inr True, s5))))))"

definition create_password_reset_token :: "datetime \<Rightarrow> string \<Rightarrow> string \<Rightarrow> db \<Rightarrow> string result" where
  "create_password_reset_token now urandom email s =
    (case find (\<lambda>u. u_email u = email \<and> u_is_active u = True) (users (cur s)) of
       None \<Rightarrow>
         (Inl (HTTPException 200
            (Msg ''If an account with this email exists, a password reset link has been sent'')), s)
     | Some user \<Rightarrow>
        (let reset_token = urandom;
             expires_at = now + 3600000000;
             password_reset = \<lparr> pr_id = next_id (map pr_id (password_resets (cur s))),
                                 pr_user_id = u_id user, pr_reset_token = reset_token,
                                 pr_expires_at = expires_at, pr_used = False,
                                 pr_created_at = now \<rparr>
         in if reset_token \<in> set (map pr_reset_token (password_resets (cur s)))
            then (Inl IntegrityError, rollback s)
            else and_then (commit (put_password_resets s (password_resets (cur s) @ [password_reset])))
                   (\<lambda>_ s1.
                 and_then (log_audit_event now ''password_reset_requested'' (Some (u_id user))
                             (JObj []) None None s1) (\<lambda>_ s2.
                 (Inr reset_token, s2)))))"

subsection \<open>Token service\<close>

record token_pair =
  access_token :: string
  refresh_token :: string
  token_type :: string
  expires_in :: int
  expires_at :: datetime

definition minutes :: "int \<Rightarrow> datetime" where
  "minutes n = n * 60000000"

definition days :: "int \<Rightarrow> datetime" where
  "days n = n * 86400000000"

text \<open>
  \<^verbatim>\<open>generate_tokens\<close>: both tokens are signed, the session row is added and committed.
  The columns \<^verbatim>\<open>session_token\<close> and \<^verbatim>\<open>refresh_token\<close> are unique, so the insert of a
  token that a row already holds fails at the commit.
\<close>

definition generate_tokens :: "env \<Rightarrow> datetime \<Rightarrow> string \<Rightarrow> int \<Rightarrow> json \<Rightarrow> db \<Rightarrow> token_pair result" where
  "generate_tokens E now jti user_id device_info s =
    (let access_payload = \<lparr> p_user_id = user_id, p_type = ''access'',
                             p_exp = now + minutes (access_token_expire_minutes E),
                             p_iat = now, p_jti = None \<rparr>;
         access_tok = jwt_encode E access_payload;
         refresh_payload = \<lparr> p_user_id = user_id, p_type = ''refresh'',
                              p_exp = now + days (refresh_token_expire_days E),
                              p_iat = now, p_jti = Some jti \<rparr>;
         refresh_tok = jwt_encode E refresh_payload;
         session = \<lparr> s_id = next_id (map s_id (user_sessions (cur s))), s_user_id = user_id,
                      s_session_token = access_tok, s_refresh_token = refresh_tok,
                      s_device_info = (if device_info = JNull then JObj [] else device_info),
                      s_ip_address = None, s_is_active = True,
                      s_expires_at = now + days (refresh_token_expire_days E),
                      s_created_at = now, s_last_accessed = now \<rparr>
     in if access_tok \<in> set (map s_session_token (user_sessions (cur s)))
           \<or> refresh_tok \<in> set (map s_refresh_token (user_sessions (cur s)))
        then (Inl IntegrityError, rollback s)
        else and_then (commit (put_user_sessions s (user_sessions (cur s) @ [session]))) (\<lambda>_ s1.
             (Inr \<lparr> access_token = access_tok, refresh_token = refresh_tok,
                    token_type = ''bearer'',
                    expires_in = access_token_expire_minutes E * 60,
                    expires_at = p_exp access_payload \<rparr>, s1)))"

definition unauthorized :: "string \<Rightarrow> error" where
  "unauthorized m = HTTPException 401 (Msg m)"

definition access_live :: "datetime \<Rightarrow> string \<Rightarrow> session_row \<Rightarrow> bool" where
  "access_live now token r \<longleftrightarrow>
     s_session_token r = token \<and> s_is_active r = True \<and> s_expires_at r > now"

definition verify_token :: "env \<Rightarrow> datetime \<Rightarrow> string \<Rightarrow> string \<Rightarrow> db \<Rightarrow> payload result" where
  "verify_token E now token tok_type s =
    (case jwt_decode E now token of
       ExpiredSignatureError \<Rightarrow> (Inl (unauthorized ''Token has expired''), s)
     | InvalidTokenError \<Rightarrow> (Inl (unauthorized ''Invalid token''), s)
     | Decoded payload \<Rightarrow>
         if p_type payload \<noteq> tok_type then (Inl (unauthorized ''Invalid token type''), s)
         else if tok_type = ''access'' then
           (case find (access_live now token) (user_sessions (cur s)) of
              None \<Rightarrow> (Inl (unauthorized ''Token not found or expired''), s)
            | Some session \<Rightarrow>
                and_then (commit (put_user_sessions s (update_first (access_live now token)
                                     (\<lambda>r. r \<lparr> s_last_accessed := now \<rparr>) (user_sessions (cur s)))))
                  (\<lambda>_ s1. (Inr payload, s1)))
         else (Inr payload, s))"

definition refresh_live :: "datetime \<Rightarrow> string \<Rightarrow> int \<Rightarrow> session_row \<Rightarrow> bool" where
  "refresh_live now token user_id r \<longleftrightarrow>
     s_refresh_token r = token \<and> s_user_id r = user_id \<and> s_is_active r = True
       \<and> s_expires_at r > now"

definition refresh_token_op :: "env \<Rightarrow> datetime \<Rightarrow> string \<Rightarrow> string \<Rightarrow> json \<Rightarrow> db \<Rightarrow> token_pair result" where
  "refresh_token_op E now jti refresh_tok device_info s =
    and_then (verify_token E now refresh_tok ''refresh'' s) (\<lambda>payload s1.
      (let user_id = p_user_id payload in
       case find (refresh_live now refresh_tok user_id) (user_sessions (cur s1)) of
         None \<Rightarrow> (Inl (unauthorized ''Refresh token not found or expired''), s1)
       | Some session \<Rightarrow>
           and_then (commit (put_user_sessions s1 (update_first (refresh_live now refresh_tok user_id)
                                   (\<lambda>r. r \<lparr> s_is_active := False \<rparr>) (user_sessions (cur s1)))))
             (\<lambda>_ s2. generate_tokens E now jti user_id device_info s2)))"

definition logout_user :: "env \<Rightarrow> datetime \<Rightarrow> string \<Rightarrow> db \<Rightarrow> bool result" where
  "logout_user E now access_tok s =
    and_then (verify_token E now access_tok ''access'' s) (\<lambda>payload s1.
      (let user_id = p_user_id payload;
           mine = (\<lambda>r. s_session_token r = access_tok \<and> s_user_id r = user_id
                          \<and> s_is_active r = True)
       in case find mine (user_sessions (cur s1)) of
            Some session \<Rightarrow>
              and_then (commit (put_user_sessions s1 (update_first mine
                                      (\<lambda>r. r \<lparr> s_is_active := False \<rparr>) (user_sessions (cur s1)))))
                (\<lambda>_ s2.
              and_then (log_audit_event now ''logout'' (Some user_id) (JObj []) None None s2)
                (\<lambda>_ s3.
              (Inr True, s3)))
          | None \<Rightarrow> (Inr False, s1)))"

subsection \<open>Session registry\<close>

definition revoke_session :: "datetime \<Rightarrow> int \<Rightarrow> int \<Rightarrow> db \<Rightarrow> bool result" where
  "revoke_session now session_id user_id s =
    (let mine = (\<lambda>r. s_id r = session_id \<and> s_user_id r = user_id \<and> s_is_active r = True)
     in case find mine (user_sessions (cur s)) of
          Some session \<Rightarrow>
            and_then (commit (put_user_sessions s (update_first mine
                                   (\<lambda>r. r \<lparr> s_is_active := False \<rparr>) (user_sessions (cur s)))))
              (\<lambda>_ s1.
            and_then (log_audit_event now ''session_revoked'' (Some user_id)
                        (JObj [(''session_id'', JInt session_id)]) None None s1) (\<lambda>_ s2.
            (Inr True, s2)))
        | None \<Rightarrow> (Inr False, s))"

text \<open>
  \<^verbatim>\<open>revoke_all_sessions\<close>: \<^verbatim>\<open>if except_current:\<close> is Python truthiness, false for
  \<^verbatim>\<open>None\<close> and for the empty string.
\<close>

definition revoke_filter :: "int \<Rightarrow> string option \<Rightarrow> session_row \<Rightarrow> bool" where
  "revoke_filter user_id except_current r \<longleftrightarrow>
     s_user_id r = user_id \<and> s_is_active r = True
     \<and> (case except_current of
           None \<Rightarrow> True
         | Some t \<Rightarrow> if t = [] then True else s_session_token r \<noteq> t)"

definition revoke_all_sessions :: "datetime \<Rightarrow> int \<Rightarrow> string option \<Rightarrow> db \<Rightarrow> int result" where
  "revoke_all_sessions now user_id except_current s =
    (let sessions = filter (revoke_filter user_id except_current) (user_sessions (cur s));
         count = int (length sessions);
         s1 = put_user_sessions s (update_where (revoke_filter user_id except_current)
                     (\<lambda>r. r \<lparr> s_is_active := False \<rparr>) (user_sessions (cur s)))
     in and_then (commit s1) (\<lambda>_ s2.
        and_then (log_audit_event now ''all_sessions_revoked'' (Some user_id)
                    (JObj [(''revoked_count'', JInt count),
                           (''except_current'', JBool (except_current \<noteq> None))])
                    None None s2) (\<lambda>_ s3.
        (Inr count, s3))))"

subsection \<open>Registration, login, password change, deactivation\<close>

record registration =
  reg_email :: string
  reg_username :: "string option"
  reg_password :: pystr
  reg_first_name :: string
  reg_last_name :: string
  reg_profile :: json

record registered =
  rg_user_id :: int
  rg_uuid :: string
  rg_email :: string
  rg_username :: string
  rg_full_name :: string
  rg_roles :: "string list"

definition verify_password :: "env \<Rightarrow> pystr \<Rightarrow> string \<Rightarrow> bool" where
  "verify_password E password hashed_password = bcrypt_checkpw E password hashed_password"

text \<open>
  \<^verbatim>\<open>register_user\<close>: \<open>reg_username = None\<close> is a dictionary without the key
  \<^verbatim>\<open>"username"\<close>, for which the e-mail address is taken. The fresh row gets the given
  uuid (\<^verbatim>\<open>uuid.uuid4()\<close>), a unique column.
\<close>

definition register_user ::
  "env \<Rightarrow> datetime \<Rightarrow> string \<Rightarrow> string \<Rightarrow> registration \<Rightarrow> string \<Rightarrow> db \<Rightarrow> registered result"
where
  "register_user E now salt uuid user_data role_name s =
    (if \<not> validate_email E (reg_email user_data)
     then (Inl (HTTPException 400 (Msg ''Invalid email format'')), s)
     else
       let password_validation = validate_password_strength E (reg_password user_data) in
       if \<not> is_valid password_validation then (Inl (weak_password password_validation), s)
       else
         let username = (case reg_username user_data of None \<Rightarrow> reg_email user_data
                         | Some n \<Rightarrow> n) in
         case find (\<lambda>u. u_email u = reg_email user_data \<or> u_username u = username) (users (cur s)) of
           Some existing_user \<Rightarrow>
             (Inl (HTTPException 400
                (Msg ''User with this email or username already exists'')), s)
         | None \<Rightarrow>
            (case find (\<lambda>r. r_name r = role_name) (roles (cur s)) of
               None \<Rightarrow>
                 (Inl (HTTPException 400
                    (Msg (''Role '' @ [CHR 0x27] @ role_name @ [CHR 0x27] @ '' not found''))), s)
             | Some role \<Rightarrow>
                (let user = \<lparr> u_id = next_id (map u_id (users (cur s))), u_uuid = uuid,
                               u_email = reg_email user_data, u_username = username,
                               u_password_hash = hash_password E salt (reg_password user_data),
                               u_first_name = reg_first_name user_data,
                               u_last_name = reg_last_name user_data,
                               u_profile = reg_profile user_data,
                               u_is_active = True, u_last_login = None,
                               u_roles = [r_name role] \<rparr>
                 in if uuid \<in> set (map u_uuid (users (cur s))) then (Inl IntegrityError, rollback s)
                    else and_then (commit (put_users s (users (cur s) @ [user]))) (\<lambda>_ s1.
                         and_then (log_audit_event now ''user_registered'' (Some (u_id user))
                                     (JObj [(''role'', JStr role_name)]) None None s1) (\<lambda>_ s2.
                         (Inr \<lparr> rg_user_id = u_id user, rg_uuid = u_uuid user,
                                rg_email = u_email user, rg_username = u_username user,
                                rg_full_name = u_first_name user @ '' '' @ u_last_name user,
                                rg_roles = u_roles user \<rparr>, s2))))))"

text \<open>
  \<^verbatim>\<open>get_user_permissions\<close>: the source returns \<^verbatim>\<open>list(set)\<close>, whose order Python leaves
  open; here the order of first occurrence.
\<close>

definition get_user_permissions :: "int \<Rightarrow> db \<Rightarrow> string list" where
  "get_user_permissions user_id s =
    (case find (\<lambda>u. u_id u = user_id) (users (cur s)) of
       None \<Rightarrow> []
     | Some user \<Rightarrow>
         remdups (concat (map (\<lambda>role. map (\<lambda>(action, resource). action @ ''_'' @ resource)
                                         (r_permissions role))
                              (filter (\<lambda>r. r_name r \<in> set (u_roles user)) (roles (cur s))))))"

definition has_permission :: "int \<Rightarrow> string \<Rightarrow> db \<Rightarrow> bool" where
  "has_permission user_id permission s \<longleftrightarrow> permission \<in> set (get_user_permissions user_id s)"

record login_result =
  lr_user :: user_row
  lr_permissions :: "string list"
  lr_tokens :: token_pair

definition authenticate_user ::
  "env \<Rightarrow> datetime \<Rightarrow> string \<Rightarrow> string \<Rightarrow> pystr \<Rightarrow> json \<Rightarrow> db \<Rightarrow> login_result result"
where
  "authenticate_user E now jti email password device_info s =
    (let known = (\<lambda>u. (u_email u = email \<or> u_username u = email) \<and> u_is_active u = True) in
     case (case find known (users (cur s)) of
             None \<Rightarrow> None
           | Some user \<Rightarrow> if verify_password E password (u_password_hash user)
                           then Some user else None) of
       None \<Rightarrow>
         and_then (log_audit_event now ''login_failed'' None
                     (JObj [(''email'', JStr email), (''reason'', JStr ''invalid_credentials'')])
                     None None s) (\<lambda>_ s1.
         (Inl (unauthorized ''Invalid email or password''), s1))
     | Some user \<Rightarrow>
         and_then (commit (put_users s (update_first known
                                 (\<lambda>u. u \<lparr> u_last_login := Some now \<rparr>) (users (cur s))))) (\<lambda>_ s1.
         and_then (generate_tokens E now jti (u_id user) device_info s1) (\<lambda>tokens s2.
         and_then (log_audit_event now ''login_success'' (Some (u_id user))
                     (JObj [(''device_info'', device_info)]) None None s2) (\<lambda>_ s3.
         (Inr \<lparr> lr_user = user \<lparr> u_last_login := Some now \<rparr>,
                lr_permissions = get_user_permissions (u_id user) s3,
                lr_tokens = tokens \<rparr>, s3)))))"

definition change_password ::
  "env \<Rightarrow> datetime \<Rightarrow> string \<Rightarrow> int \<Rightarrow> pystr \<Rightarrow> pystr \<Rightarrow> db \<Rightarrow> bool result"
where
  "change_password E now salt user_id current_password new_password s =
    (case find (\<lambda>u. u_id u = user_id) (users (cur s)) of
       None \<Rightarrow> (Inl (HTTPException 404 (Msg ''User not found'')), s)
     | Some user \<Rightarrow>
         if \<not> verify_password E current_password (u_password_hash user)
         then (Inl (HTTPException 400 (Msg ''Current password is incorrect'')), s)
         else
           let password_validation = validate_password_strength E new_password in
           if \<not> is_valid password_validation then (Inl (weak_password password_validation), s)
           else
             and_then (commit (put_users s (update_first (\<lambda>u. u_id u = user_id)
                                     (\<lambda>u. u \<lparr> u_password_hash := hash_password E salt new_password \<rparr>)
                                     (users (cur s))))) (\<lambda>_ s1.
             and_then (log_audit_event now ''password_changed'' (Some (u_id user)) (JObj [])
                         None None s1) (\<lambda>_ s2.
             (Inr True, s2))))"

definition deactivate_user :: "datetime \<Rightarrow> int \<Rightarrow> int \<Rightarrow> db \<Rightarrow> bool result" where
  "deactivate_user now user_id admin_user_id s =
    (case find (\<lambda>u. u_id u = user_id) (users (cur s)) of
       None \<Rightarrow> (Inr False, s)
     | Some user \<Rightarrow>
        (let s1 = put_users s (update_first (\<lambda>u. u_id u = user_id)
                        (\<lambda>u. u \<lparr> u_is_active := False \<rparr>) (users (cur s)));
             s2 = put_user_sessions s1 (update_where
                        (\<lambda>r. s_user_id r = user_id \<and> s_is_active r = True)
                        (\<lambda>r. r \<lparr> s_is_active := False \<rparr>) (user_sessions (cur s1)))
         in and_then (commit s2) (\<lambda>_ s3.
            and_then (log_audit_event now ''user_deactivated'' (Some admin_user_id)
                        (JObj [(''deactivated_user_id'', JInt user_id)]) None None s3) (\<lambda>_ s4.
            (Inr True, s4)))))"

subsection \<open>The route \<^verbatim>\<open>POST /auth/forgot-password\<close> (\<^verbatim>\<open>backend/auth_routes.py\<close>)\<close>

text \<open>
  The handler returns a JSON body and the list of queued background e-mails
  (address, token). \<^verbatim>\<open>except HTTPException: raise\<close> lets an \<^verbatim>\<open>HTTPException\<close> of the
  service leave the handler; any other exception becomes status 500.
\<close>

record route_response =
  body :: "(string \<times> string) list"
  background_tasks :: "(string \<times> string) list"

definition forgot_password ::
  "datetime \<Rightarrow> string \<Rightarrow> string \<Rightarrow> string \<Rightarrow> string \<Rightarrow> db \<Rightarrow> route_response result"
where
  "forgot_password now urandom email ip_address user_agent s =
    (case and_then (create_password_reset_token now urandom email s) (\<lambda>reset_token s1.
          and_then (log_audit_event now ''password_reset_requested'' None
                      (JObj [(''email'', JStr email)]) (Some ip_address) (Some user_agent) s1)
            (\<lambda>_ s2.
          (Inr \<lparr> body = [(''message'',
                     ''If an account with this email exists, a password reset link has been sent'')],
                 background_tasks = [(email, reset_token)] \<rparr>, s2))) of
       (Inl (HTTPException code d), s') \<Rightarrow> (Inl (HTTPException code d), s')
     | (Inl e, s') \<Rightarrow> (Inl (HTTPException 500 (Msg ''Password reset request failed'')), s')
     | (Inr r, s') \<Rightarrow> (Inr r, s'))"

subsection \<open>Rate limiter (\<^verbatim>\<open>backend/auth_middleware.py\<close>)\<close>

text \<open>
  \<^verbatim>\<open>rate_limit_storage = defaultdict(list)\<close> is a total function from keys to lists of
  time stamps, the empty list for a key never written. A reading of \<^verbatim>\<open>time.time()\<close> is
  a real number of seconds.
\<close>

record rate_limiter =
  requests_per_minute :: int
  requests_per_hour :: int

definition RateLimiter :: rate_limiter where
  "RateLimiter = \<lparr> requests_per_minute = 60, requests_per_hour = 1000 \<rparr>"

type_synonym rate_limit_storage = "string \<Rightarrow> real list"

definition storage_key :: "string \<Rightarrow> string \<Rightarrow> string" where
  "storage_key identifier endpoint = identifier @ '':'' @ endpoint"

definition is_allowed ::
  "rate_limiter \<Rightarrow> real \<Rightarrow> string \<Rightarrow> string \<Rightarrow> rate_limit_storage \<Rightarrow> bool \<times> rate_limit_storage"
where
  "is_allowed self now identifier endpoint storage =
    (let key = storage_key identifier endpoint;
         storage1 = storage (key := filter (\<lambda>timestamp. now - timestamp < 3600) (storage key));
         minute_ago = now - 60;
         minute_requests = length (filter (\<lambda>timestamp. timestamp > minute_ago) (storage1 key));
         hour_requests = length (storage1 key)
     in if int minute_requests \<ge> requests_per_minute self
           \<or> int hour_requests \<ge> requests_per_hour self
        then (False, storage1)
        else (True, storage1 (key := storage1 key @ [now])))"

text \<open>A client calling \<open>is_allowed\<close> at the given instants, one after the other.\<close>

fun calls ::
  "rate_limiter \<Rightarrow> string \<Rightarrow> string \<Rightarrow> real list \<Rightarrow> rate_limit_storage \<Rightarrow> bool list \<times> rate_limit_storage"
where
  "calls self identifier endpoint [] storage = ([], storage)"
| "calls self identifier endpoint (now # later) storage =
    (let (ok, storage1) = is_allowed self now identifier endpoint storage;
         (oks, storage2) = calls self identifier endpoint later storage1
     in (ok # oks, storage2))"

subsection \<open>CSRF tokens (\<^verbatim>\<open>backend/auth_middleware.py\<close>)\<close>

text \<open>\<^verbatim>\<open>str(n)\<close> of an integer: its decimal digits, after a minus sign when negative.\<close>

definition digit_char :: "nat \<Rightarrow> char" where
  "digit_char d = char_of (48 + d)"

fun digits_of :: "nat \<Rightarrow> string" where
  "digits_of n = (if n < 10 then [digit_char n] else digits_of (n div 10) @ [digit_char (n mod 10)])"

definition py_str :: "int \<Rightarrow> string" where
  "py_str i = (if i < 0 then CHR ''-'' # digits_of (nat (- i)) else digits_of (nat i))"

text \<open>
  \<^verbatim>\<open>int(s)\<close> of a string: white space around it is dropped, then an optional sign and
  decimal digits, where single underscores may stand between digits; \<open>None\<close> is
  \<^verbatim>\<open>ValueError\<close>. (Python also reads the decimal digits of other scripts, which a
  HOL string of bytes does not hold.)
\<close>

definition is_space :: "char \<Rightarrow> bool" where
  "is_space c \<longleftrightarrow> (9 \<le> (of_char c :: nat) \<and> (of_char c :: nat) \<le> 13)
                   \<or> (28 \<le> (of_char c :: nat) \<and> (of_char c :: nat) \<le> 32)"

definition strip :: "string \<Rightarrow> string" where
  "strip cs = rev (dropWhile is_space (rev (dropWhile is_space cs)))"

definition is_digit_char :: "char \<Rightarrow> bool" where
  "is_digit_char c \<longleftrightarrow> 48 \<le> (of_char c :: nat) \<and> (of_char c :: nat) \<le> 57"

definition digit_val :: "char \<Rightarrow> nat" where
  "digit_val c = of_char c - 48"

fun digits_val :: "nat \<Rightarrow> string \<Rightarrow> nat option" where
  "digits_val acc [] = Some acc"
| "digits_val acc [c] = (if is_digit_char c then Some (acc * 10 + digit_val c) else None)"
| "digits_val acc (c # d # cs) =
     (if is_digit_char c then digits_val (acc * 10 + digit_val c) (d # cs)
      else if c = CHR ''_'' \<and> is_digit_char d then digits_val (acc * 10 + digit_val d) cs
      else None)"

definition unsigned :: "string \<Rightarrow> nat option" where
  "unsigned cs = (case cs of [] \<Rightarrow> None
                  | c # rest \<Rightarrow> if is_digit_char c then digits_val (digit_val c) rest else None)"

definition py_int :: "string \<Rightarrow> int option" where
  "py_int cs =
    (case strip cs of
       [] \<Rightarrow> None
     | c # rest \<Rightarrow>
         if c = CHR ''-'' then map_option (\<lambda>n. - int n) (unsigned rest)
         else if c = CHR ''+'' then map_option int (unsigned rest)
         else map_option int (unsigned (c # rest)))"

text \<open>\<^verbatim>\<open>int(x)\<close> of a float truncates towards zero.\<close>

definition int_of_float :: "real \<Rightarrow> int" where
  "int_of_float x = (if x \<ge> 0 then \<lfloor>x\<rfloor> else \<lceil>x\<rceil>)"

text \<open>
  \<^verbatim>\<open>a, b = token.split(".", 1)\<close>: the parts before and after the first dot;
  \<open>None\<close> is the \<^verbatim>\<open>ValueError\<close> of unpacking a string without a dot.
\<close>

definition split_dot :: "string \<Rightarrow> (string \<times> string) option" where
  "split_dot token =
    (if CHR ''.'' \<in> set token
     then Some (takeWhile (\<lambda>c. c \<noteq> CHR ''.'') token, tl (dropWhile (\<lambda>c. c \<noteq> CHR ''.'') token))
     else None)"

definition generate_token :: "env \<Rightarrow> real \<Rightarrow> int \<Rightarrow> string" where
  "generate_token E now user_id =
    (let timestamp = py_str (int_of_float now);
         message = py_str user_id @ '':'' @ timestamp;
         signature = hmac_sha256_hex E (csrf_secret E) message
     in timestamp @ ''.'' @ signature)"

text \<open>
  \<^verbatim>\<open>hmac.compare_digest\<close> of two strings is their equality (it raises \<^verbatim>\<open>TypeError\<close>,
  caught to \<^verbatim>\<open>False\<close>, on a non-ASCII string, which never equals the hexadecimal digest).
\<close>

definition validate_token :: "env \<Rightarrow> real \<Rightarrow> string \<Rightarrow> int \<Rightarrow> int \<Rightarrow> bool" where
  "validate_token E now token user_id max_age =
    (case split_dot token of
       None \<Rightarrow> False
     | Some (timestamp_str, signature) \<Rightarrow>
        (case py_int timestamp_str of
           None \<Rightarrow> False
         | Some timestamp \<Rightarrow>
             if now - real_of_int timestamp > real_of_int max_age then False
             else
               let message = py_str user_id @ '':'' @ timestamp_str;
                   expected_signature = hmac_sha256_hex E (csrf_secret E) message
               in signature = expected_signature))"

subsection \<open>A small installation, used for the concrete instances\<close>

definition demo_env :: env where
  "demo_env =
    \<lparr> isupper = (\<lambda>c. 65 \<le> c \<and> c \<le> 90),
      islower = (\<lambda>c. 97 \<le> c \<and> c \<le> 122),
      isdigit = (\<lambda>c. 48 \<le> c \<and> c \<le> 57),
      hmac_sha256_hex = (\<lambda>key message. key @ ''/'' @ message),
      bcrypt_hashpw = (\<lambda>password salt. salt @ map char_of password),
      bcrypt_checkpw = (\<lambda>password hashed. drop 4 hashed = map char_of password),
      jwt_encode = (\<lambda>p. p_type p @ ''#'' @ (case p_jti p of None \<Rightarrow> ''-'' | Some j \<Rightarrow> j)),
      jwt_decode = (\<lambda>now token.
         if token = ''R1'' then
           (if now < 900 then Decoded \<lparr> p_user_id = 7, p_type = ''refresh'', p_exp = 900,
                                        p_iat = 0, p_jti = Some ''j1'' \<rparr>
            else ExpiredSignatureError)
         else if token = ''A1'' \<or> token = ''A9'' then
           (if now < 300 then Decoded \<lparr> p_user_id = 7, p_type = ''access'', p_exp = 300,
                                        p_iat = 0, p_jti = None \<rparr>
            else ExpiredSignatureError)
         else InvalidTokenError),
      validate_email = (\<lambda>address. CHR ''@'' \<in> set address),
      access_token_expire_minutes = 30,
      refresh_token_expire_days = 7,
      csrf_secret = ''change-in-production'' \<rparr>"

definition alice :: user_row where
  "alice = \<lparr> u_id = 7, u_uuid = ''u-7'', u_email = ''a@x.com'', u_username = ''alice'',
             u_password_hash = ''saltAbcdef1!'', u_first_name = ''Alice'', u_last_name = ''A'',
             u_profile = JNull, u_is_active = True, u_last_login = None,
             u_roles = [''client''] \<rparr>"

definition bob :: user_row where
  "bob = \<lparr> u_id = 8, u_uuid = ''u-8'', u_email = ''b@x.com'', u_username = ''bob'',
           u_password_hash = ''saltQwerty9?'', u_first_name = ''Bob'', u_last_name = ''B'',
           u_profile = JNull, u_is_active = True, u_last_login = None,
           u_roles = [''agent''] \<rparr>"

definition demo_session :: "int \<Rightarrow> int \<Rightarrow> string \<Rightarrow> string \<Rightarrow> session_row" where
  "demo_session i uid access refresh =
    \<lparr> s_id = i, s_user_id = uid, s_session_token = access, s_refresh_token = refresh,
      s_device_info = JObj [], s_ip_address = None, s_is_active = True, s_expires_at = 1000,
      s_created_at = 0, s_last_accessed = 0 \<rparr>"

definition demo_tables :: tables where
  "demo_tables =
    \<lparr> users = [alice, bob],
      roles = [\<lparr> r_name = ''client'', r_permissions = [(''read'', ''properties'')] \<rparr>,
               \<lparr> r_name = ''agent'', r_permissions = [(''read'', ''properties''),
                                                      (''create'', ''properties'')] \<rparr>],
      user_sessions = [demo_session 1 7 ''A1'' ''R1'', demo_session 2 7 ''A2'' ''R2'',
                       demo_session 3 8 ''A3'' ''R3''],
      password_resets = [\<lparr> pr_id = 1, pr_user_id = 7, pr_reset_token = ''T1'',
                           pr_expires_at = 500, pr_used = False, pr_created_at = 0 \<rparr>],
      audit_logs = [] \<rparr>"

definition demo_db :: db where
  "demo_db = \<lparr> cur = demo_tables, durable = demo_tables, commit_faults = [] \<rparr>"

subsection \<open>Auxiliary definitions for the statements\<close>

text \<open>The tables after a successful \<open>reset_password\<close>.\<close>

definition after_reset ::
  "env \<Rightarrow> datetime \<Rightarrow> string \<Rightarrow> string \<Rightarrow> pystr \<Rightarrow> reset_row \<Rightarrow> user_row \<Rightarrow> db \<Rightarrow> tables"
where
  "after_reset E now salt T p r user s =
     (cur s) \<lparr> users := update_first (\<lambda>u. u_id u = pr_user_id r)
                  (\<lambda>u. u \<lparr> u_password_hash := hash_password E salt p \<rparr>) (users (cur s)),
               user_sessions := update_where
                  (\<lambda>x. s_user_id x = u_id user \<and> s_is_active x = True)
                  (\<lambda>x. x \<lparr> s_is_active := False \<rparr>) (user_sessions (cur s)),
               password_resets := update_first (reset_live now T)
                  (\<lambda>r. r \<lparr> pr_used := True \<rparr>) (password_resets (cur s)),
               audit_logs := audit_logs (cur s) @
                  [\<lparr> a_user_id = Some (u_id user), a_action = ''password_reset_completed'',
                     a_details = JObj [], a_ip_address = None, a_user_agent = None,
                     a_timestamp = now \<rparr>] \<rparr>"

declare digits_of.simps [simp del]

section \<open>Properties\<close>


subsection \<open>Password strength\<close>

lemma msgs_neq:
  "msg_length \<noteq> msg_uppercase"
  "msg_length \<noteq> msg_lowercase"
  "msg_length \<noteq> msg_digit"
  "msg_length \<noteq> msg_special"
  "msg_uppercase \<noteq> msg_length"
  "msg_uppercase \<noteq> msg_lowercase"
  "msg_uppercase \<noteq> msg_digit"
  "msg_uppercase \<noteq> msg_special"
  "msg_lowercase \<noteq> msg_length"
  "msg_lowercase \<noteq> msg_uppercase"
  "msg_lowercase \<noteq> msg_digit"
  "msg_lowercase \<noteq> msg_special"
  "msg_digit \<noteq> msg_length"
  "msg_digit \<noteq> msg_uppercase"
  "msg_digit \<noteq> msg_lowercase"
  "msg_digit \<noteq> msg_special"
  "msg_special \<noteq> msg_length"
  "msg_special \<noteq> msg_uppercase"
  "msg_special \<noteq> msg_lowercase"
  "msg_special \<noteq> msg_digit"
  by (simp_all add: msg_length_def msg_uppercase_def msg_lowercase_def msg_digit_def msg_special_def)

lemma errors_validate:
  "errors (validate_password_strength E p) =
     (if length p < 8 then [msg_length] else [])
   @ (if \<exists>c \<in> set p. isupper E c then [] else [msg_uppercase])
   @ (if \<exists>c \<in> set p. islower E c then [] else [msg_lowercase])
   @ (if \<exists>c \<in> set p. isdigit E c then [] else [msg_digit])
   @ (if \<exists>c \<in> set p. c \<in> set special_chars then [] else [msg_special])"
  by (simp add: validate_password_strength_def Let_def)

lemma is_valid_validate:
  "is_valid (validate_password_strength E p) \<longleftrightarrow> errors (validate_password_strength E p) = []"
  by (simp add: validate_password_strength_def Let_def)

lemmas demo_defs = demo_env_def demo_db_def demo_tables_def demo_session_def alice_def bob_def
  str_lit_def special_chars_def

text \<open>
  Claim C6. \<open>validate_password_strength\<close> is a function of the password alone (and of
  Python's character tests): it reads and writes no state. A password of at least 8
  characters with an uppercase letter, a lowercase letter, a digit and a character of
  the special set is valid, with no errors. For every password, each of the five
  messages is in \<open>errors\<close> exactly when its rule is violated, whatever the other rules
  say; \<open>errors\<close> holds nothing else, and \<open>is_valid\<close> says that it is empty.
\<close>

theorem validate_password_strength_rules:
  fixes E :: env and p :: pystr
  defines "v \<equiv> validate_password_strength E p"
  shows "(8 \<le> length p \<and> (\<exists>c \<in> set p. isupper E c) \<and> (\<exists>c \<in> set p. islower E c)
            \<and> (\<exists>c \<in> set p. isdigit E c) \<and> (\<exists>c \<in> set p. c \<in> set special_chars)
          \<longrightarrow> is_valid v = True \<and> errors v = [])
       \<and> (msg_length \<in> set (errors v) \<longleftrightarrow> length p < 8)
       \<and> (msg_uppercase \<in> set (errors v) \<longleftrightarrow> \<not> (\<exists>c \<in> set p. isupper E c))
       \<and> (msg_lowercase \<in> set (errors v) \<longleftrightarrow> \<not> (\<exists>c \<in> set p. islower E c))
       \<and> (msg_digit \<in> set (errors v) \<longleftrightarrow> \<not> (\<exists>c \<in> set p. isdigit E c))
       \<and> (msg_special \<in> set (errors v) \<longleftrightarrow> \<not> (\<exists>c \<in> set p. c \<in> set special_chars))
       \<and> set (errors v) \<subseteq> {msg_length, msg_uppercase, msg_lowercase, msg_digit, msg_special}
       \<and> (is_valid v \<longleftrightarrow> errors v = [])"
proof -
  let ?up = "\<exists>c \<in> set p. isupper E c"
  let ?lo = "\<exists>c \<in> set p. islower E c"
  let ?dg = "\<exists>c \<in> set p. isdigit E c"
  let ?sp = "\<exists>c \<in> set p. c \<in> set special_chars"
  have e: "errors v = (if length p < 8 then [msg_length] else [])
      @ (if ?up then [] else [msg_uppercase]) @ (if ?lo then [] else [msg_lowercase])
      @ (if ?dg then [] else [msg_digit]) @ (if ?sp then [] else [msg_special])"
    unfolding v_def by (rule errors_validate)
  have iv: "is_valid v \<longleftrightarrow> errors v = []"
    unfolding v_def by (rule is_valid_validate)
  have 1: "msg_length \<in> set (errors v) \<longleftrightarrow> length p < 8"
    unfolding e by (simp add: msgs_neq)
  have 2: "msg_uppercase \<in> set (errors v) \<longleftrightarrow> \<not> ?up"
    unfolding e by (simp add: msgs_neq)
  have 3: "msg_lowercase \<in> set (errors v) \<longleftrightarrow> \<not> ?lo"
    unfolding e by (simp add: msgs_neq)
  have 4: "msg_digit \<in> set (errors v) \<longleftrightarrow> \<not> ?dg"
    unfolding e by (simp add: msgs_neq)
  have 5: "msg_special \<in> set (errors v) \<longleftrightarrow> \<not> ?sp"
    unfolding e by (simp add: msgs_neq)
  have 6: "set (errors v) \<subseteq> {msg_length, msg_uppercase, msg_lowercase, msg_digit, msg_special}"
    unfolding e by auto
  have 0: "8 \<le> length p \<and> ?up \<and> ?lo \<and> ?dg \<and> ?sp \<longrightarrow> is_valid v = True \<and> errors v = []"
    unfolding iv e by simp
  from 0 1 2 3 4 5 6 iv show ?thesis by blast
qed

text \<open>
  The password \<^verbatim>\<open>Abcdef1!\<close> meets every rule; \<^verbatim>\<open>abc\<close> violates the length, uppercase,
  digit and special-character rules and meets the lowercase rule.
\<close>

theorem validate_password_strength_rules_witness:
  "is_valid (validate_password_strength demo_env (str_lit ''Abcdef1!'')) = True
   \<and> errors (validate_password_strength demo_env (str_lit ''Abcdef1!'')) = []
   \<and> msg_length \<in> set (errors (validate_password_strength demo_env (str_lit ''abc'')))
   \<and> msg_digit \<in> set (errors (validate_password_strength demo_env (str_lit ''abc'')))
   \<and> msg_lowercase \<notin> set (errors (validate_password_strength demo_env (str_lit ''abc'')))"
proof -
  have a: "8 \<le> length (str_lit ''Abcdef1!'')
      \<and> (\<exists>c \<in> set (str_lit ''Abcdef1!''). isupper demo_env c)
      \<and> (\<exists>c \<in> set (str_lit ''Abcdef1!''). islower demo_env c)
      \<and> (\<exists>c \<in> set (str_lit ''Abcdef1!''). isdigit demo_env c)
      \<and> (\<exists>c \<in> set (str_lit ''Abcdef1!''). c \<in> set special_chars)"
    by (simp add: demo_defs)
  have b1: "length (str_lit ''abc'') < 8" by (simp add: demo_defs)
  have b2: "\<not> (\<exists>c \<in> set (str_lit ''abc''). isdigit demo_env c)" by (simp add: demo_defs)
  have b3: "\<exists>c \<in> set (str_lit ''abc''). islower demo_env c" by (simp add: demo_defs)
  note A = validate_password_strength_rules [of "str_lit ''Abcdef1!''" demo_env]
  note B = validate_password_strength_rules [of "str_lit ''abc''" demo_env]
  have good: "is_valid (validate_password_strength demo_env (str_lit ''Abcdef1!'')) = True
      \<and> errors (validate_password_strength demo_env (str_lit ''Abcdef1!'')) = []"
    by (rule mp [OF conjunct1 [OF A] a])
  have bl: "msg_length \<in> set (errors (validate_password_strength demo_env (str_lit ''abc'')))"
    by (rule iffD2 [OF conjunct1 [OF conjunct2 [OF B]] b1])
  have bd: "msg_digit \<in> set (errors (validate_password_strength demo_env (str_lit ''abc'')))"
    by (rule iffD2 [OF conjunct1 [OF conjunct2 [OF conjunct2 [OF conjunct2 [OF conjunct2 [OF B]]]]] b2])
  have bw: "msg_lowercase \<notin> set (errors (validate_password_strength demo_env (str_lit ''abc'')))"
  proof
    assume "msg_lowercase \<in> set (errors (validate_password_strength demo_env (str_lit ''abc'')))"
    then have "\<not> (\<exists>c \<in> set (str_lit ''abc''). islower demo_env c)"
      by (rule iffD1 [OF conjunct1 [OF conjunct2 [OF conjunct2 [OF conjunct2 [OF B]]]]])
    with b3 show False by (rule notE [rotated])
  qed
  from good bl bd bw show ?thesis by (intro conjI) (elim conjE, assumption)+
qed

subsection \<open>Password reset\<close>

text \<open>
  Claim C10. A call of \<open>reset_password\<close> whose new password violates a strength rule
  raises the weak-password error, status 400 with the list of violated rules, and
  returns the database as it was: the token is not looked up, so this holds for every
  token, stored or not, used or not, expired or not, and no row of any table changes.
\<close>

theorem reset_password_weak_password_first:
  assumes "\<not> is_valid (validate_password_strength E new_password)"
  shows "reset_password E now salt reset_token new_password s
         = (Inl (HTTPException 400 (Rules ''Password does not meet requirements''
                    (errors (validate_password_strength E new_password)))), s)
       \<and> errors (validate_password_strength E new_password) \<noteq> []"
  using assms
  by (simp add: reset_password_def weak_password_def Let_def is_valid_validate)

text \<open>
  The weak password \<^verbatim>\<open>abc\<close> with the live token \<^verbatim>\<open>T1\<close> of the small installation, and
  with a token that no row holds.
\<close>

theorem reset_password_weak_password_first_witness:
  "reset_password demo_env 100 ''salt'' ''T1'' (str_lit ''abc'') demo_db
     = (Inl (HTTPException 400 (Rules ''Password does not meet requirements''
             [msg_length, msg_uppercase, msg_digit, msg_special])), demo_db)
   \<and> reset_password demo_env 100 ''salt'' ''nothing'' (str_lit ''abc'') demo_db
     = (Inl (HTTPException 400 (Rules ''Password does not meet requirements''
             [msg_length, msg_uppercase, msg_digit, msg_special])), demo_db)"
proof -
  have e: "errors (validate_password_strength demo_env (str_lit ''abc''))
           = [msg_length, msg_uppercase, msg_digit, msg_special]"
    by (simp add: errors_validate demo_defs)
  then have w: "\<not> is_valid (validate_password_strength demo_env (str_lit ''abc''))"
    by (simp add: is_valid_validate)
  show ?thesis
    using reset_password_weak_password_first [OF w, of 100 "''salt''" "''T1''" demo_db]
      reset_password_weak_password_first [OF w, of 100 "''salt''" "''nothing''" demo_db]
    by (simp add: e)
qed

lemmas db_defs = put_users_def put_user_sessions_def put_password_resets_def put_audit_logs_def
  commit_def rollback_def and_then_def log_audit_event_def Let_def

lemma find_unique:
  assumes "distinct (map key xs)" "r \<in> set xs" "P r" "\<And>x. P x \<Longrightarrow> key x = k"
  shows "find P xs = Some r"
  using assms
proof (induction xs)
  case Nil
  then show ?case by simp
next
  case (Cons x xs)
  show ?case
  proof (cases "x = r")
    case True
    with Cons.prems show ?thesis by simp
  next
    case False
    with Cons.prems have rin: "r \<in> set xs" by simp
    have "key r = k" using Cons.prems(3,4) by simp
    with rin have "k \<in> key ` set xs" by force
    with Cons.prems(1) have "key x \<noteq> k" by auto
    with Cons.prems(4) have "\<not> P x" by blast
    moreover have "find P xs = Some r"
      using Cons.IH Cons.prems rin by simp
    ultimately show ?thesis by simp
  qed
qed

lemma find_update_first:
  "find P xs = Some x \<Longrightarrow> (\<And>y. P (f y) = P y) \<Longrightarrow> find P (update_first P f xs) = Some (f x)"
  by (induction xs) (auto split: if_splits)

lemma find_reset_after_use:
  assumes "distinct (map pr_reset_token xs)" "find (reset_live now T) xs = Some r"
  shows "find (reset_live now' T)
           (update_first (reset_live now T) (\<lambda>r. r \<lparr> pr_used := True \<rparr>) xs) = None"
  using assms
proof (induction xs)
  case Nil
  then show ?case by simp
next
  case (Cons x xs)
  from Cons.prems(1) have nx: "pr_reset_token x \<notin> pr_reset_token ` set xs" by simp
  show ?case
  proof (cases "reset_live now T x")
    case True
    then have "pr_reset_token x = T" by (simp add: reset_live_def)
    with nx have "\<forall>y \<in> set xs. pr_reset_token y \<noteq> T" by blast
    then have "find (reset_live now' T) xs = None"
      by (auto simp: find_None_iff reset_live_def)
    moreover have "\<not> reset_live now' T (x \<lparr> pr_used := True \<rparr>)"
      by (simp add: reset_live_def)
    ultimately show ?thesis using True by simp
  next
    case False
    with Cons.prems have d: "distinct (map pr_reset_token xs)"
      and f: "find (reset_live now T) xs = Some r" by auto
    from f have "r \<in> set xs \<and> reset_live now T r" by (auto simp: find_Some_iff)
    then have "T \<in> pr_reset_token ` set xs" by (force simp: reset_live_def)
    with nx have "pr_reset_token x \<noteq> T" by auto
    then have "\<not> reset_live now' T x" by (simp add: reset_live_def)
    with False Cons.IH[OF d f] show ?thesis by simp
  qed
qed

lemma used_after_update_first:
  assumes "distinct (map pr_reset_token xs)" "find (reset_live now T) xs = Some r"
  shows "\<forall>x \<in> set (update_first (reset_live now T) (\<lambda>r. r \<lparr> pr_used := True \<rparr>) xs).
           pr_reset_token x = T \<longrightarrow> pr_used x"
  using assms
proof (induction xs)
  case Nil
  then show ?case by simp
next
  case (Cons x xs)
  from Cons.prems(1) have nx: "pr_reset_token x \<notin> pr_reset_token ` set xs" by simp
  show ?case
  proof (cases "reset_live now T x")
    case True
    then have "pr_reset_token x = T" by (simp add: reset_live_def)
    with nx have "\<forall>y \<in> set xs. pr_reset_token y \<noteq> T" by blast
    with True show ?thesis by simp
  next
    case False
    with Cons.prems have d: "distinct (map pr_reset_token xs)"
      and f: "find (reset_live now T) xs = Some r" by auto
    from f have "r \<in> set xs \<and> reset_live now T r" by (auto simp: find_Some_iff)
    then have "T \<in> pr_reset_token ` set xs" by (force simp: reset_live_def)
    with nx have "pr_reset_token x \<noteq> T" by auto
    with False Cons.IH[OF d f] show ?thesis by simp
  qed
qed

lemma in_update_where:
  "x \<in> set (update_where P g xs) \<Longrightarrow> \<exists>y \<in> set xs. x = (if P y then g y else y)"
  by (auto simp: update_where_def)

lemma update_where_inactive:
  assumes "x \<in> set (update_where (\<lambda>x. s_user_id x = U \<and> s_is_active x = True)
                        (\<lambda>x. x \<lparr> s_is_active := False \<rparr>) xs)"
    and "s_user_id x = U"
  shows "\<not> s_is_active x"
proof -
  from in_update_where [OF assms(1)] obtain y
    where y: "x = (if s_user_id y = U \<and> s_is_active y = True
                   then y \<lparr> s_is_active := False \<rparr> else y)"
    by blast
  show ?thesis
  proof (cases "s_user_id y = U \<and> s_is_active y = True")
    case True
    with y have "x = y \<lparr> s_is_active := False \<rparr>" by simp
    then show ?thesis by simp
  next
    case False
    with y have "x = y" by simp
    with False assms(2) show ?thesis by blast
  qed
qed

lemma update_where_others:
  "filter (\<lambda>x. s_user_id x \<noteq> U) (update_where (\<lambda>x. s_user_id x = U \<and> s_is_active x = True)
       (\<lambda>x. x \<lparr> s_is_active := False \<rparr>) xs)
   = filter (\<lambda>x. s_user_id x \<noteq> U) xs"
  by (induction xs) (auto simp: update_where_def)

lemma reset_password_used:
  assumes "find (reset_live now T) (password_resets (cur s)) = None"
  shows "reset_password E now salt T p s =
     (Inl (if is_valid (validate_password_strength E p)
           then HTTPException 400 (Msg ''Invalid or expired reset token'')
           else weak_password (validate_password_strength E p)), s)"
  using assms by (simp add: reset_password_def Let_def)

lemma reset_password_first:
  assumes v: "is_valid (validate_password_strength E p)"
    and f: "find (reset_live now T) (password_resets (cur s)) = Some r"
    and u: "find (\<lambda>u. u_id u = pr_user_id r) (users (cur s)) = Some user"
    and c: "commit_faults s = []"
  shows "reset_password E now salt T p s =
     (Inr True, s \<lparr> cur := after_reset E now salt T p r user s,
                     durable := after_reset E now salt T p r user s \<rparr>)"
  using v f u c by (simp add: reset_password_def db_defs after_reset_def)

end
